theory Spec2Isabelle
  imports Complex_Main "HOL-Library.Multiset"
begin

section \<open>Values and built-ins of the interpreter\<close>

text \<open>
  The program is \<^verbatim>\<open>fitness.py\<close>. Python floats are modelled as IEEE 754 binary64 values
  with round-to-nearest-even arithmetic, Python ints as \<open>int\<close>, text as \<open>string\<close> whose
  characters are read as code points below 256 (text with other characters is outside the
  model). Every exception the code can raise is a value of \<open>error\<close>; a function that can
  raise returns \<open>error + 'a\<close>.
\<close>

datatype error =
  ValueError | EOFError | KeyError | IndexError | ZeroDivisionError | OverflowError

subsection \<open>float\<close>

text \<open>
  A float is a real that binary64 represents, one of the two infinities, or not-a-number.
  The two zeros of binary64 are one value here: the program compares floats with zero,
  divides by them (either zero raises) and formats and stores positive ones only, so the sign
  of a zero is never seen.
\<close>

datatype pyfloat = Fin real | PInf | NInf | NaN

definition pow2 :: "int \<Rightarrow> real" where
  "pow2 k = (if 0 \<le> k then 2 ^ nat k else 1 / 2 ^ nat (- k))"

text \<open>
  The binary exponent of a real \<open>x \<ge> 0\<close> within the range of binary64: the \<open>e\<close> with
  \<open>2 ^ e \<le> x < 2 ^ (e + 1)\<close>, but \<open>-1022\<close> below the normal range and \<open>1023\<close> above it.
  It is found from \<open>-1022\<close> upwards by steps of decreasing powers of two, each one taken
  when the power of two it leads to is still at most \<open>x\<close>.
\<close>

definition binary_exponent :: "real \<Rightarrow> int" where
  "binary_exponent x =
     min 1023
       (foldl (\<lambda>e k. if pow2 (e + k) \<le> x then e + k else e) (- 1022)
          [1024, 512, 256, 128, 64, 32, 16, 8, 4, 2, 1])"

text \<open>The nearest integer, a tie going to the even one.\<close>

definition round_half_even :: "real \<Rightarrow> int" where
  "round_half_even x =
     (let k = \<lfloor>x\<rfloor>; f = x - of_int k
      in if f < 1 / 2 then k else if 1 / 2 < f then k + 1
         else if even k then k else k + 1)"

text \<open>
  Rounding a real to binary64: the nearest multiple of the unit in the last place
  (53 significant bits, \<open>2 ^ -1074\<close> below the normal range), a tie going to the even
  multiple; a result of magnitude \<open>2 ^ 1024\<close> or more is an infinity.
\<close>

definition round_double :: "real \<Rightarrow> pyfloat" where
  "round_double x =
     (let ulp = pow2 (binary_exponent \<bar>x\<bar> - 52);
          r = of_int (round_half_even (\<bar>x\<bar> / ulp)) * ulp
      in if pow2 1024 \<le> r then (if 0 < x then PInf else NInf)
         else Fin (if 0 < x then r else - r))"

text \<open>The comparisons \<^verbatim>\<open><\<close> and \<^verbatim>\<open><=\<close>; every comparison with not-a-number is false.\<close>

fun float_lt :: "pyfloat \<Rightarrow> pyfloat \<Rightarrow> bool" where
  "float_lt NaN b = False"
| "float_lt a NaN = False"
| "float_lt (Fin x) (Fin y) = (x < y)"
| "float_lt a NInf = False"
| "float_lt PInf b = False"
| "float_lt a b = True"

definition float_le :: "pyfloat \<Rightarrow> pyfloat \<Rightarrow> bool" where
  "float_le a b = (float_lt a b \<or> (a = b \<and> a \<noteq> NaN))"

text \<open>\<^verbatim>\<open>a / b\<close>: a zero divisor raises \<^verbatim>\<open>ZeroDivisionError\<close> whatever \<^verbatim>\<open>a\<close> is; a quotient
  too large is an infinity, without an exception.\<close>

fun float_div :: "pyfloat \<Rightarrow> pyfloat \<Rightarrow> error + pyfloat" where
  "float_div a (Fin y) =
     (if y = 0 then Inl ZeroDivisionError
      else Inr (case a of
                  Fin x \<Rightarrow> round_double (x / y)
                | PInf \<Rightarrow> if 0 < y then PInf else NInf
                | NInf \<Rightarrow> if 0 < y then NInf else PInf
                | NaN \<Rightarrow> NaN))"
| "float_div (Fin x) PInf = Inr (Fin 0)"
| "float_div (Fin x) NInf = Inr (Fin 0)"
| "float_div a b = Inr NaN"

text \<open>\<^verbatim>\<open>a ** 2\<close>: the square correctly rounded (the C library's \<^verbatim>\<open>pow\<close> is taken to round
  correctly); a finite \<^verbatim>\<open>a\<close> whose square is too large raises \<^verbatim>\<open>OverflowError\<close>, a square
  too small is zero.\<close>

fun float_pow2 :: "pyfloat \<Rightarrow> error + pyfloat" where
  "float_pow2 (Fin x) =
     (case round_double (x * x) of Fin y \<Rightarrow> Inr (Fin y) | _ \<Rightarrow> Inl OverflowError)"
| "float_pow2 NaN = Inr NaN"
| "float_pow2 a = Inr PInf"

text \<open>A value written into a CSV cell: a str, a float or an int.\<close>

datatype cell = S string | F pyfloat | I int

subsection \<open>str methods\<close>

definition isdigit_char :: "char \<Rightarrow> bool" where
  "isdigit_char c = ((48::nat) \<le> of_char c \<and> of_char c \<le> (57::nat)
     \<or> of_char c = (178::nat) \<or> of_char c = (179::nat) \<or> of_char c = (185::nat))"

text \<open>\<^verbatim>\<open>str.isdigit\<close>: at least one character, all of them digits (the superscripts
  one, two and three count as digits, although \<^verbatim>\<open>int\<close> rejects them).\<close>

definition isdigit :: "string \<Rightarrow> bool" where
  "isdigit s = (s \<noteq> [] \<and> list_all isdigit_char s)"

definition lower_char :: "char \<Rightarrow> char" where
  "lower_char c =
     (let n = (of_char c :: nat)
      in if (65 \<le> n \<and> n \<le> 90) \<or> (192 \<le> n \<and> n \<le> 222 \<and> n \<noteq> 215)
         then char_of (n + 32) else c)"

definition lower :: "string \<Rightarrow> string" where
  "lower s = map lower_char s"

text \<open>\<^verbatim>\<open>s.split(',')\<close>: the fields between the commas; the empty string has one empty field.\<close>

fun split_comma :: "string \<Rightarrow> string list" where
  "split_comma [] = [[]]"
| "split_comma (c # cs) =
     (if c = CHR '','' then [] # split_comma cs
      else (case split_comma cs of [] \<Rightarrow> [[c]] | t # ts \<Rightarrow> (c # t) # ts))"

subsection \<open>int() and float() on text\<close>

text \<open>
  The white space that \<^verbatim>\<open>int\<close> and \<^verbatim>\<open>float\<close> drop around a number: tab to carriage return
  and the space, and the next-line and no-break-space characters, which the conversion
  turns into spaces. The separators 28 to 31 are not dropped (although \<^verbatim>\<open>str.isspace\<close>
  holds of them).
\<close>

definition is_space :: "char \<Rightarrow> bool" where
  "is_space c =
     (let n = (of_char c :: nat)
      in (9 \<le> n \<and> n \<le> 13) \<or> n = 32 \<or> n = 133 \<or> n = 160)"

definition strip :: "string \<Rightarrow> string" where
  "strip s = rev (dropWhile is_space (rev (dropWhile is_space s)))"

definition ascii_digit :: "char \<Rightarrow> bool" where
  "ascii_digit c = ((48::nat) \<le> of_char c \<and> of_char c \<le> (57::nat))"

text \<open>The grammar \<^verbatim>\<open>digit (["_"] digit)*\<close>.\<close>

fun digitpart :: "string \<Rightarrow> bool" where
  "digitpart [] = False"
| "digitpart [c] = ascii_digit c"
| "digitpart (c # d # cs) =
     (ascii_digit c \<and> (if d = CHR ''_'' then digitpart cs else digitpart (d # cs)))"

definition digits_of :: "string \<Rightarrow> string" where
  "digits_of s = filter ascii_digit s"

definition digits_value :: "string \<Rightarrow> nat" where
  "digits_value s = foldl (\<lambda>a c. 10 * a + (of_char c - 48)) 0 (digits_of s)"

text \<open>An optional sign in front of the rest.\<close>

definition split_sign :: "string \<Rightarrow> bool \<times> string" where
  "split_sign s =
     (case s of
        [] \<Rightarrow> (False, [])
      | c # cs \<Rightarrow> if c = CHR ''-'' then (True, cs)
                  else if c = CHR ''+'' then (False, cs) else (False, s))"

text \<open>
  \<^verbatim>\<open>int(s)\<close>: surrounding white space is dropped, then an optional sign and decimal digits
  with single underscores between them; \<open>None\<close> is the \<^verbatim>\<open>ValueError\<close>. The interpreter
  also refuses more than 4300 digits.
\<close>

definition py_int :: "string \<Rightarrow> int option" where
  "py_int s =
     (let (neg, body) = split_sign (strip s)
      in if digitpart body \<and> length (digits_of body) \<le> 4300
         then Some (if neg then - int (digits_value body) else int (digits_value body))
         else None)"

text \<open>
  \<^verbatim>\<open>float(s)\<close>: surrounding white space is dropped, then an optional sign and either one of
  the spellings \<^verbatim>\<open>inf\<close>, \<^verbatim>\<open>infinity\<close>, \<^verbatim>\<open>nan\<close> in any case, or a decimal literal
  \<^verbatim>\<open>(digits ["." [digits]] | "." digits) [("e"|"E") [sign] digits]\<close>, whose exact value is
  rounded to binary64 (too large a value is an infinity, too small a value is zero);
  \<open>None\<close> is the \<^verbatim>\<open>ValueError\<close>.
\<close>

definition split_at_char :: "(char \<Rightarrow> bool) \<Rightarrow> string \<Rightarrow> string \<times> string option" where
  "split_at_char p s =
     (case dropWhile (\<lambda>c. \<not> p c) s of
        [] \<Rightarrow> (s, None)
      | _ # r \<Rightarrow> (takeWhile (\<lambda>c. \<not> p c) s, Some r))"

definition mantissa :: "string \<Rightarrow> real option" where
  "mantissa m =
     (case split_at_char (\<lambda>c. c = CHR ''.'') m of
        (ip, None) \<Rightarrow> if digitpart ip then Some (real (digits_value ip)) else None
      | (ip, Some fp) \<Rightarrow>
          if (ip = [] \<or> digitpart ip) \<and> (fp = [] \<or> digitpart fp) \<and> \<not> (ip = [] \<and> fp = [])
          then Some (real (digits_value ip)
                     + real (digits_value fp) / 10 ^ length (digits_of fp))
          else None)"

definition exponent :: "string \<Rightarrow> int option" where
  "exponent e =
     (let (neg, body) = split_sign e
      in if digitpart body
         then Some (if neg then - int (digits_value body) else int (digits_value body))
         else None)"

definition decimal_value :: "string \<Rightarrow> real option" where
  "decimal_value body =
     (case split_at_char (\<lambda>c. c = CHR ''e'' \<or> c = CHR ''E'') body of
        (m, None) \<Rightarrow> mantissa m
      | (m, Some e) \<Rightarrow>
          (case (mantissa m, exponent e) of
             (Some v, Some k) \<Rightarrow>
               Some (v * (if 0 \<le> k then 10 ^ nat k else 1 / 10 ^ nat (- k)))
           | _ \<Rightarrow> None))"

definition py_float :: "string \<Rightarrow> pyfloat option" where
  "py_float s =
     (let (neg, body) = split_sign (strip s)
      in if lower body \<in> set [''inf'', ''infinity''] then Some (if neg then NInf else PInf)
         else if lower body = ''nan'' then Some NaN
         else (case decimal_value body of
                 None \<Rightarrow> None
               | Some v \<Rightarrow> Some (round_double (if neg then - v else v))))"

subsection \<open>Formatting\<close>

fun str_nat :: "nat \<Rightarrow> string" where
  "str_nat n = (if n < 10 then [char_of (48 + n)]
                else str_nat (n div 10) @ [char_of (48 + n mod 10)])"

declare str_nat.simps [simp del]

text \<open>\<^verbatim>\<open>f"{x:.2f}"\<close>: the hundredth nearest to the exact value of the float, a tie going
  to the even one.\<close>

definition fmt_2f :: "pyfloat \<Rightarrow> string" where
  "fmt_2f v =
     (case v of
        Fin x \<Rightarrow>
          (let n = nat (round_half_even (\<bar>x\<bar> * 100))
           in (if x < 0 then ''-'' else []) @ str_nat (n div 100) @ ''.''
              @ [char_of (48 + (n mod 100) div 10), char_of (48 + n mod 10)])
      | PInf \<Rightarrow> ''inf''
      | NInf \<Rightarrow> ''-inf''
      | NaN \<Rightarrow> ''nan'')"

text \<open>A message wrapped in an ANSI colour sequence, \<^verbatim>\<open>"\033[<code>m" ... "\033[0m"\<close>.\<close>

definition colour :: "string \<Rightarrow> string \<Rightarrow> string" where
  "colour code s = CHR 0x1B # ''['' @ code @ ''m'' @ s @ CHR 0x1B # ''[0m''"

section \<open>calculate_bmi\<close>

text \<open>
  \<^verbatim>\<open>calculate_bmi(weight, height_cm)\<close>. Each operation rounds; the literals \<^verbatim>\<open>18.5\<close>,
  \<^verbatim>\<open>24.9\<close> and \<^verbatim>\<open>29.9\<close> are the floats nearest to them. Dividing by a zero float
  raises \<^verbatim>\<open>ZeroDivisionError\<close>, a square out of range \<^verbatim>\<open>OverflowError\<close>.
\<close>

definition calculate_bmi :: "pyfloat \<Rightarrow> pyfloat \<Rightarrow> error + pyfloat \<times> string" where
  "calculate_bmi weight height_cm =
     (case float_div height_cm (Fin 100) of
        Inl e \<Rightarrow> Inl e
      | Inr height_m \<Rightarrow>
          (case float_pow2 height_m of
             Inl e \<Rightarrow> Inl e
           | Inr square \<Rightarrow>
               (case float_div weight square of
                  Inl e \<Rightarrow> Inl e
                | Inr bmi \<Rightarrow>
                    (let category =
                       (if float_lt bmi (round_double 18.5) then ''Underweight''
                        else if float_le (round_double 18.5) bmi
                                \<and> float_le bmi (round_double 24.9) then ''Normal weight''
                        else if float_le (Fin 25) bmi
                                \<and> float_le bmi (round_double 29.9) then ''Overweight''
                        else ''Obesity'')
                     in Inr (bmi, category)))))"

section \<open>The world the program runs in\<close>

text \<open>
  A reading of the clock, already split into the two pieces the program formats:
  \<^verbatim>\<open>strftime("%Y-%m-%d")\<close> and \<^verbatim>\<open>strftime("%H:%M:%S")\<close>.
\<close>

record datetime =
  ymd :: string
  hms :: string

text \<open>
  The world holds the lines still to be typed on standard input, what has been written to
  standard output (one entry per \<^verbatim>\<open>print\<close> or prompt), the clock as a stream of readings
  with the number of readings taken so far, the name \<^verbatim>\<open>platform.system()\<close> returns,
  the regular files by path, each one the list of rows written to it, and the directories
  that exist.
\<close>

record world =
  stdin :: "string list"
  stdout :: "string list"
  clock :: "nat \<Rightarrow> datetime"
  ticks :: nat
  system :: string
  files :: "string \<rightharpoonup> cell list list"
  dirs :: "string set"

definition print :: "string \<Rightarrow> world \<Rightarrow> world" where
  "print s w = w\<lparr>stdout := stdout w @ [s]\<rparr>"

text \<open>\<^verbatim>\<open>input(prompt)\<close> writes the prompt and reads one line; at end of input it raises
  \<^verbatim>\<open>EOFError\<close>.\<close>

definition input :: "string \<Rightarrow> world \<Rightarrow> (error + string) \<times> world" where
  "input prompt w =
     (case stdin w of
        [] \<Rightarrow> (Inl EOFError, print prompt w)
      | l # ls \<Rightarrow> (Inr l, (print prompt w)\<lparr>stdin := ls\<rparr>))"

definition datetime_now :: "world \<Rightarrow> datetime \<times> world" where
  "datetime_now w = (clock w (ticks w), w\<lparr>ticks := Suc (ticks w)\<rparr>)"

text \<open>\<^verbatim>\<open>os.path.join\<close> of two components, as on POSIX.\<close>

definition path_join :: "string \<Rightarrow> string \<Rightarrow> string" where
  "path_join a b =
     (if b \<noteq> [] \<and> hd b = CHR ''/'' then b
      else if a = [] \<or> last a = CHR ''/'' then a @ b
      else a @ ''/'' @ b)"

section \<open>The application object\<close>

text \<open>The dictionary \<^verbatim>\<open>self.user_info\<close> with its four keys.\<close>

record user_info =
  height_cm :: pyfloat
  weight_kg :: pyfloat
  BMI :: pyfloat
  BMI_Category :: string

record app =
  folder_path :: string
  user_info :: user_info
  body_parts :: "string list"
  exercises :: "string \<rightharpoonup> string list"

definition invalid_numbers :: string where
  "invalid_numbers = colour ''91'' ''Invalid input. Please enter valid numbers.''"

subsection \<open>prompt_yes_no\<close>

definition yes_no_prompt :: "string \<Rightarrow> string" where
  "yes_no_prompt message =
     message @ '' ('' @ colour ''94'' ''yes/y'' @ '' or '' @ colour ''91'' ''no/n'' @ ''): ''"

definition invalid_yes_no :: string where
  "invalid_yes_no =
     colour ''91'' (''Invalid input. Please enter '' @ [CHR 0x27] @ ''yes'' @ [CHR 0x27] @ '', ''
       @ [CHR 0x27] @ ''y'' @ [CHR 0x27] @ '', '' @ [CHR 0x27] @ ''no'' @ [CHR 0x27] @ '', or ''
       @ [CHR 0x27] @ ''n'' @ [CHR 0x27] @ ''.'')"

function prompt_yes_no :: "string \<Rightarrow> world \<Rightarrow> (error + bool) \<times> world" where
  "prompt_yes_no message w =
     (case input (yes_no_prompt message) w of
        (Inl e, w1) \<Rightarrow> (Inl e, w1)
      | (Inr line, w1) \<Rightarrow>
          (let response = lower line
           in if response \<in> set [''yes'', ''y''] then (Inr True, w1)
              else if response \<in> set [''no'', ''n''] then (Inr False, w1)
              else prompt_yes_no message (print invalid_yes_no w1)))"
  by pat_completeness auto

lemma stdin_print [simp]: "stdin (print s w) = stdin w"
  by (simp add: print_def)

lemma files_print [simp]: "files (print s w) = files w"
  by (simp add: print_def)

lemma ticks_print [simp]: "ticks (print s w) = ticks w"
  by (simp add: print_def)

lemma clock_print [simp]: "clock (print s w) = clock w"
  by (simp add: print_def)

lemma system_print [simp]: "system (print s w) = system w"
  by (simp add: print_def)

lemma stdout_print [simp]: "stdout (print s w) = stdout w @ [s]"
  by (simp add: print_def)

lemma input_Inr_stdin: "input p w = (Inr l, w1) \<Longrightarrow> stdin w = l # stdin w1"
  by (auto simp: input_def split: list.splits)

lemma input_Inr_length: "input p w = (Inr l, w1) \<Longrightarrow> length (stdin w1) < length (stdin w)"
  by (auto dest: input_Inr_stdin)

lemma input_length: "input p w = (r, w1) \<Longrightarrow> length (stdin w1) \<le> length (stdin w)"
  by (auto simp: input_def split: list.splits)

lemma input_files: "input p w = (r, w1) \<Longrightarrow> files w1 = files w"
  by (auto simp: input_def split: list.splits)

termination prompt_yes_no
  by (relation "measure (\<lambda>(m, w). length (stdin w))") (auto dest: input_Inr_length [OF sym])

declare prompt_yes_no.simps [simp del]

subsection \<open>The weight, reps and sets of one exercise\<close>

text \<open>
  The innermost loop of \<^verbatim>\<open>input_body_parts_and_exercises\<close>: the three conversions sit in
  one \<^verbatim>\<open>try\<close> whose \<^verbatim>\<open>except ValueError\<close> prints and goes round again; the loop is left
  by \<^verbatim>\<open>break\<close> when all three values are positive.
\<close>

definition positive_numbers :: string where
  "positive_numbers = colour ''91'' ''Please enter positive numbers for weight, reps, and sets.''"

definition weight_used_prompt :: string where
  "weight_used_prompt = ''Enter the weight used (in kg): ''"

definition reps_prompt :: string where
  "reps_prompt = ''Enter the number of reps: ''"

definition sets_prompt :: string where
  "sets_prompt = ''Enter the number of sets: ''"

function enter_set_details :: "world \<Rightarrow> (error + pyfloat \<times> int \<times> int) \<times> world" where
  "enter_set_details w =
     (case input weight_used_prompt w of
        (Inl e, w1) \<Rightarrow> (Inl e, w1)
      | (Inr s1, w1) \<Rightarrow>
          (case py_float s1 of
             None \<Rightarrow> enter_set_details (print invalid_numbers w1)
           | Some weight \<Rightarrow>
               (case input reps_prompt w1 of
                  (Inl e, w2) \<Rightarrow> (Inl e, w2)
                | (Inr s2, w2) \<Rightarrow>
                    (case py_int s2 of
                       None \<Rightarrow> enter_set_details (print invalid_numbers w2)
                     | Some reps \<Rightarrow>
                         (case input sets_prompt w2 of
                            (Inl e, w3) \<Rightarrow> (Inl e, w3)
                          | (Inr s3, w3) \<Rightarrow>
                              (case py_int s3 of
                                 None \<Rightarrow> enter_set_details (print invalid_numbers w3)
                               | Some sets \<Rightarrow>
                                   if float_lt (Fin 0) weight \<and> reps > 0 \<and> sets > 0
                                   then (Inr (weight, reps, sets), w3)
                                   else enter_set_details (print positive_numbers w3)))))))"
  by pat_completeness auto

termination enter_set_details
  by (relation "measure (\<lambda>w. length (stdin w))")
     (auto dest!: input_Inr_length [OF sym])

declare enter_set_details.simps [simp del]

lemma enter_set_details_frame:
  "enter_set_details w = (r, w') \<Longrightarrow>
     length (stdin w') \<le> length (stdin w) \<and> files w' = files w"
proof (induction "length (stdin w)" arbitrary: w rule: less_induct)
  case less
  from less.prems show ?case
    apply (subst (asm) enter_set_details.simps)
    apply (auto simp: input_def split: list.splits option.splits if_splits
                dest!: less.hyps [rotated])
    done
qed

lemma prompt_yes_no_frame:
  "prompt_yes_no m w = (r, w') \<Longrightarrow>
     length (stdin w') \<le> length (stdin w) \<and> files w' = files w"
proof (induction "length (stdin w)" arbitrary: w rule: less_induct)
  case less
  from less.prems show ?case
    apply (subst (asm) prompt_yes_no.simps)
    apply (auto simp: input_def Let_def split: list.splits if_splits
                dest!: less.hyps [rotated])
    done
qed

subsection \<open>input_body_parts_and_exercises\<close>

text \<open>The numbered list printed by a \<^verbatim>\<open>for i, x in enumerate(items, start=1)\<close> loop.\<close>

definition print_menu :: "string \<Rightarrow> string list \<Rightarrow> world \<Rightarrow> world" where
  "print_menu code items w =
     foldl (\<lambda>w (i, x). print (colour code (str_nat i @ ''. '' @ x)) w) w (enumerate 1 items)"

definition strftime_full :: "datetime \<Rightarrow> string" where
  "strftime_full t = ymd t @ '' '' @ hms t"

text \<open>
  The \<^verbatim>\<open>while True\<close> loop for one body part. An exercise number that is not accepted
  falls out of the \<^verbatim>\<open>if\<close>, which has no \<^verbatim>\<open>else\<close>, and the loop goes round again; the
  only \<^verbatim>\<open>break\<close> follows a record and the answer no.
\<close>

definition exercises_header :: "string \<Rightarrow> string" where
  "exercises_header part =
     CHR 0x0A # colour ''96'' (''--- Select Exercises for '' @ part @ '' ---'')"

definition exercise_prompt :: string where
  "exercise_prompt = ''Enter the number of the exercise you performed: ''"

definition another_exercise :: string where
  "another_exercise = ''Add another exercise for the same body part?''"

function exercise_loop ::
  "app \<Rightarrow> string \<Rightarrow> cell list list \<Rightarrow> world \<Rightarrow> (error + cell list list) \<times> world" where
  "exercise_loop self part exercises_data w =
     (let w0 = print (exercises_header part) w
      in case exercises self part of
           None \<Rightarrow> (Inl KeyError, w0)
         | Some exs \<Rightarrow>
             (case input exercise_prompt (print_menu ''94'' exs w0) of
                (Inl e, w1) \<Rightarrow> (Inl e, w1)
              | (Inr ex_choice, w1) \<Rightarrow>
                  if isdigit ex_choice then
                    (case py_int ex_choice of
                       None \<Rightarrow> (Inl ValueError, w1)
                     | Some n \<Rightarrow>
                         if 1 \<le> n \<and> n \<le> int (length exs) then
                           (case enter_set_details w1 of
                              (Inl e, w2) \<Rightarrow> (Inl e, w2)
                            | (Inr (weight, reps, sets), w2) \<Rightarrow>
                                (case datetime_now w2 of
                                   (t, w3) \<Rightarrow>
                                     (let data' = exercises_data @
                                            [[S (strftime_full t), S part, S (exs ! nat (n - 1)),
                                              F weight, I reps, I sets]]
                                      in case prompt_yes_no another_exercise w3 of
                                           (Inl e, w4) \<Rightarrow> (Inl e, w4)
                                         | (Inr more', w4) \<Rightarrow>
                                             if \<not> more' then (Inr data', w4)
                                             else exercise_loop self part data' w4)))
                         else exercise_loop self part exercises_data w1)
                  else exercise_loop self part exercises_data w1))"
  by pat_completeness auto

lemma print_menu_eq:
  "print_menu code items w =
     w\<lparr>stdout := stdout w @
          map (\<lambda>(i, x). colour code (str_nat i @ ''. '' @ x)) (enumerate 1 items)\<rparr>"
proof -
  have "foldl (\<lambda>w (i, x). print (colour code (str_nat i @ ''. '' @ x)) w) w ps =
          w\<lparr>stdout := stdout w @ map (\<lambda>(i, x). colour code (str_nat i @ ''. '' @ x)) ps\<rparr>"
    for ps :: "(nat \<times> string) list"
    by (induction ps arbitrary: w) (auto simp: print_def split: prod.splits)
  then show ?thesis by (simp add: print_menu_def)
qed

lemma stdin_print_menu [simp]: "stdin (print_menu code items w) = stdin w"
  by (simp add: print_menu_eq)

lemma files_print_menu [simp]: "files (print_menu code items w) = files w"
  by (simp add: print_menu_eq)

lemma ticks_print_menu [simp]: "ticks (print_menu code items w) = ticks w"
  by (simp add: print_menu_eq)

lemma clock_print_menu [simp]: "clock (print_menu code items w) = clock w"
  by (simp add: print_menu_eq)

lemma system_print_menu [simp]: "system (print_menu code items w) = system w"
  by (simp add: print_menu_eq)

lemma stdin_datetime_now: "datetime_now w = (t, w') \<Longrightarrow> stdin w' = stdin w \<and> files w' = files w"
  by (auto simp: datetime_now_def)

termination exercise_loop
  apply (relation "measure (\<lambda>(self, part, d, w). length (stdin w))")
  apply simp
  apply (auto dest!: input_Inr_length [OF sym] enter_set_details_frame [OF sym]
          prompt_yes_no_frame [OF sym] stdin_datetime_now [OF sym])
  done

declare exercise_loop.simps [simp del]

lemma exercise_loop_frame:
  "exercise_loop self part d w = (r, w') \<Longrightarrow>
     length (stdin w') \<le> length (stdin w) \<and> files w' = files w"
proof (induction "length (stdin w)" arbitrary: w d rule: less_induct)
  case less
  from less.prems show ?case
    apply (subst (asm) exercise_loop.simps)
    apply (auto simp: input_def Let_def
                split: list.splits option.splits if_splits prod.splits sum.splits
                dest!: less.hyps [rotated] enter_set_details_frame prompt_yes_no_frame
                       stdin_datetime_now)
    done
qed

text \<open>
  \<^verbatim>\<open>sorted(set(parts_choice.split(',')), key=int)\<close>. The key is computed for every
  distinct token before anything is ordered, so one token that \<^verbatim>\<open>int\<close> rejects raises
  \<^verbatim>\<open>ValueError\<close>. The order in which a Python set hands out its elements is not
  specified; here it is the order of \<open>remdups\<close>, and the sort is stable.
\<close>

definition selected_parts :: "string \<Rightarrow> error + string list" where
  "selected_parts parts_choice =
     (let tokens = remdups (split_comma parts_choice)
      in if list_all (\<lambda>t. py_int t \<noteq> None) tokens
         then Inr (sort_key (\<lambda>t. the (py_int t)) tokens)
         else Inl ValueError)"

definition invalid_body_part :: string where
  "invalid_body_part =
     colour ''91'' ''Invalid body part selection. Please select a valid number.''"

text \<open>The \<^verbatim>\<open>for part_index in selected_parts\<close> loop.\<close>

fun parts_loop ::
  "app \<Rightarrow> string list \<Rightarrow> cell list list \<Rightarrow> world \<Rightarrow> (error + cell list list) \<times> world" where
  "parts_loop self [] exercises_data w = (Inr exercises_data, w)"
| "parts_loop self (part_index # rest) exercises_data w =
     (if isdigit part_index then
        (case py_int part_index of
           None \<Rightarrow> (Inl ValueError, w)
         | Some n \<Rightarrow>
             if 1 \<le> n \<and> n \<le> int (length (body_parts self)) then
               (case exercise_loop self (body_parts self ! nat (n - 1)) exercises_data w of
                  (Inl e, w1) \<Rightarrow> (Inl e, w1)
                | (Inr data', w1) \<Rightarrow> parts_loop self rest data' w1)
             else parts_loop self rest exercises_data (print invalid_body_part w))
      else parts_loop self rest exercises_data (print invalid_body_part w))"

definition body_parts_header :: string where
  "body_parts_header = CHR 0x0A # colour ''95'' ''--- Select Body Parts You Trained ---''"

definition body_parts_prompt :: string where
  "body_parts_prompt =
     ''Enter the numbers of the body parts you trained, separated by commas: ''"

definition input_body_parts_and_exercises ::
  "app \<Rightarrow> world \<Rightarrow> (error + cell list list) \<times> world" where
  "input_body_parts_and_exercises self w =
     (case input body_parts_prompt
             (print_menu ''93'' (body_parts self) (print body_parts_header w)) of
        (Inl e, w1) \<Rightarrow> (Inl e, w1)
      | (Inr parts_choice, w1) \<Rightarrow>
          (case selected_parts parts_choice of
             Inl e \<Rightarrow> (Inl e, w1)
           | Inr parts \<Rightarrow> parts_loop self parts [] w1))"

subsection \<open>save_fitness_data\<close>

definition headers :: "cell list" where
  "headers = [S ''Date'', S ''Height (cm)'', S ''Weight (kg)'', S ''BMI'', S ''BMI Category'',
              S ''Trained Body Part'', S ''Exercise'', S ''Weight (kg)'', S ''Reps'', S ''Sets'']"

text \<open>
  One \<^verbatim>\<open>writer.writerow\<close> per entry: \<^verbatim>\<open>[entry[0]]\<close>, the four values of
  \<^verbatim>\<open>self.user_info\<close>, then \<^verbatim>\<open>entry[1:]\<close>. An empty entry has no \<^verbatim>\<open>entry[0]\<close>; the rows
  written before it stay in the file.
\<close>

definition data_row :: "user_info \<Rightarrow> cell \<Rightarrow> cell list \<Rightarrow> cell list" where
  "data_row ui c cs =
     [c, F (height_cm ui), F (weight_kg ui), F (BMI ui), S (BMI_Category ui)] @ cs"

fun write_rows :: "user_info \<Rightarrow> cell list list \<Rightarrow> cell list list \<Rightarrow> (error + unit) \<times> cell list list" where
  "write_rows ui [] file = (Inr (), file)"
| "write_rows ui (entry # data) file =
     (case entry of
        [] \<Rightarrow> (Inl IndexError, file)
      | c # cs \<Rightarrow> write_rows ui data (file @ [data_row ui c cs]))"

definition today_path :: "app \<Rightarrow> datetime \<Rightarrow> string \<Rightarrow> string" where
  "today_path self t sys =
     (let today = ymd t;
          file_extension = (if sys \<noteq> ''Windows'' then ''csv'' else ''xls'');
          filename = today @ ''.'' @ file_extension
      in path_join (folder_path self) filename)"

definition saved_message :: "string \<Rightarrow> string" where
  "saved_message file_path = colour ''92'' ''Data successfully saved to:'' @ '' '' @ file_path"

definition save_fitness_data :: "app \<Rightarrow> cell list list \<Rightarrow> world \<Rightarrow> (error + unit) \<times> world" where
  "save_fitness_data self data w =
     (case datetime_now w of
        (t, w1) \<Rightarrow>
          (let file_path = today_path self t (system w1);
               file_exists = (files w1 file_path \<noteq> None);
               opened = (case files w1 file_path of None \<Rightarrow> [] | Some rows \<Rightarrow> rows);
               start = (if \<not> file_exists then opened @ [headers] else opened)
           in case write_rows (user_info self) data start of
                (Inl e, rows) \<Rightarrow> (Inl e, w1\<lparr>files := (files w1)(file_path \<mapsto> rows)\<rparr>)
              | (Inr u, rows) \<Rightarrow>
                  (Inr (), print (saved_message file_path)
                             (w1\<lparr>files := (files w1)(file_path \<mapsto> rows)\<rparr>))))"

subsection \<open>main_loop\<close>

definition another_set :: string where
  "another_set = ''Would you like to enter exercises for another set of body parts?''"

definition went_wrong :: string where
  "went_wrong = colour ''91'' ''Something went wrong, please start over.''"

lemma parts_loop_frame:
  "parts_loop self ps d w = (r, w') \<Longrightarrow>
     length (stdin w') \<le> length (stdin w) \<and> files w' = files w"
proof (induction ps arbitrary: d w)
  case Nil
  then show ?case by simp
next
  case (Cons p ps)
  from Cons.prems show ?case
    by (auto split: if_splits option.splits prod.splits sum.splits
             dest!: Cons.IH exercise_loop_frame)
qed

lemma input_body_parts_and_exercises_frame:
  "input_body_parts_and_exercises self w = (r, w') \<Longrightarrow>
     length (stdin w') \<le> length (stdin w) \<and> files w' = files w"
  by (auto simp: input_body_parts_and_exercises_def input_def
           split: list.splits sum.splits dest!: parts_loop_frame)

lemma input_body_parts_and_exercises_consumes:
  "input_body_parts_and_exercises self w = (Inr data, w') \<Longrightarrow>
     length (stdin w') < length (stdin w)"
  by (auto simp: input_body_parts_and_exercises_def input_def
           split: list.splits sum.splits dest!: parts_loop_frame)

lemma save_fitness_data_stdin:
  "save_fitness_data self data w = (r, w') \<Longrightarrow> stdin w' = stdin w"
  by (auto simp: save_fitness_data_def datetime_now_def Let_def split: prod.splits sum.splits)

function main_loop :: "app \<Rightarrow> world \<Rightarrow> (error + unit) \<times> world" where
  "main_loop self w =
     (case input_body_parts_and_exercises self w of
        (Inl e, w1) \<Rightarrow> (Inl e, w1)
      | (Inr data, w1) \<Rightarrow>
          if data \<noteq> [] then
            (case save_fitness_data self data w1 of
               (Inl e, w2) \<Rightarrow> (Inl e, w2)
             | (Inr u, w2) \<Rightarrow>
                 (case prompt_yes_no another_set w2 of
                    (Inl e, w3) \<Rightarrow> (Inl e, w3)
                  | (Inr another, w3) \<Rightarrow>
                      if \<not> another then (Inr (), w3) else main_loop self w3))
          else main_loop self (print went_wrong w1))"
  by pat_completeness auto

termination main_loop
  apply (relation "measure (\<lambda>(self, w). length (stdin w))")
  apply simp
  apply (auto dest!: input_body_parts_and_exercises_consumes [OF sym]
          save_fitness_data_stdin [OF sym] prompt_yes_no_frame [OF sym])
  done

declare main_loop.simps [simp del]

subsection \<open>input_user_info and the constructor\<close>

definition height_prompt :: string where
  "height_prompt = CHR 0x0A # ''Enter your height in cm: ''"

definition weight_prompt :: string where
  "weight_prompt = ''Enter your weight in kg: ''"

definition positive_height_weight :: string where
  "positive_height_weight =
     colour ''91'' ''Please enter positive values for height and weight.''"

definition bmi_message :: "pyfloat \<Rightarrow> string \<Rightarrow> string" where
  "bmi_message bmi category =
     colour ''96'' (''Your BMI is: '' @ fmt_2f bmi @ '' ('' @ category @ '')'')"

function input_user_info :: "world \<Rightarrow> (error + user_info) \<times> world" where
  "input_user_info w =
     (case input height_prompt w of
        (Inl e, w1) \<Rightarrow> (Inl e, w1)
      | (Inr s1, w1) \<Rightarrow>
          (case py_float s1 of
             None \<Rightarrow> input_user_info (print invalid_numbers w1)
           | Some height_cm' \<Rightarrow>
               (case input weight_prompt w1 of
                  (Inl e, w2) \<Rightarrow> (Inl e, w2)
                | (Inr s2, w2) \<Rightarrow>
                    (case py_float s2 of
                       None \<Rightarrow> input_user_info (print invalid_numbers w2)
                     | Some weight_kg' \<Rightarrow>
                         if float_lt (Fin 0) height_cm' \<and> float_lt (Fin 0) weight_kg' then
                           (case calculate_bmi weight_kg' height_cm' of
                              Inl e \<Rightarrow> (Inl e, w2)
                            | Inr (bmi, category) \<Rightarrow>
                                (Inr \<lparr>height_cm = height_cm', weight_kg = weight_kg',
                                      BMI = bmi, BMI_Category = category\<rparr>,
                                 print (bmi_message bmi category) w2))
                         else input_user_info (print positive_height_weight w2)))))"
  by pat_completeness auto

termination input_user_info
  apply (relation "measure (\<lambda>w. length (stdin w))")
  apply simp
  apply (auto dest!: input_Inr_length [OF sym])
  done

declare input_user_info.simps [simp del]

definition the_body_parts :: "string list" where
  "the_body_parts = [''Chest'', ''Back'', ''Arms'', ''Shoulders'', ''Legs'']"

definition the_exercises :: "(string \<times> string list) list" where
  "the_exercises =
     [(''Chest'',
       [''Incline Smith Press'', ''Close Grip Flat Press'', ''Wide Grip Flat Press'',
        ''Decline Chest Press'', ''Pec Deck Fly'', ''High-To-Low Cable Fly'',
        ''Mid Cable Fly'', ''Low-To-High Cable Fly'', ''Bench Press'', ''Incline Machine Press'']),
      (''Back'',
       [''Lat Pull Down'', ''Lat Pull Over'', ''Seated Lat Pull Over'',
        ''Chest Supported Row'', ''Chest Supported T-Bar Row'', ''Rear Delts Fly'',
        ''Face Pulls'', ''Hyper-extensions'', ''Single Cable Lat Pull Over'',
        ''Barbell Row'', ''Cable Rows'']),
      (''Arms'',
       [''Bicep Curl (Free Weights)'', ''Hammer Curls (Free Weights)'', ''Bicep Curl (Cables)'',
        ''Bicep Curls (Machine)'', ''Hammer Curls (Cable)'', ''Tricep Pushdown (Machine)'',
        ''Tricep Pushdown (Rope)'', ''Tricep Pushdown (V-Bar)'', ''Tricep Pushdown (Easy Bar)'',
        ''Tricep Pushdown (Straight Bar)'', ''Single Tricep Pushdown'', ''Straight Bar Cable Curl'',
        ''Uni-Lateral Cable Curl'', ''Wrist Curls'']),
      (''Shoulders'',
       [''Lateral Raises (Free Weights)'', ''Cable Lateral Raise'', ''Machine Lateral Raise'',
        ''Shoulder Press Machine'', ''Rear Delt Machine'', ''Cable Rear Delt'']),
      (''Legs'',
       [''Leg Press'', ''Hack Squat'', ''Bulgarian Split Squat'', ''Leg Extension'',
        ''Hamstring Curl Machine'', ''Hamstring Curl (Free Weights)'', ''Abductors'',
        ''Standing Calf Raise'', ''Seated Calf Raise'', ''RDL'' @ [CHR 0x27] @ ''s''])]"

definition get_documents_path :: "string \<Rightarrow> string" where
  "get_documents_path home = path_join home ''Documents''"

text \<open>\<^verbatim>\<open>ensure_folder_exists\<close>; \<^verbatim>\<open>os.makedirs\<close> also makes the directory above.\<close>

definition ensure_folder_exists :: "string \<Rightarrow> world \<Rightarrow> string \<times> world" where
  "ensure_folder_exists documents_path w =
     (let folder = path_join documents_path ''Gym Progress''
      in if folder \<notin> dirs w \<and> files w folder = None
         then (folder,
               print (colour ''92'' ''Successfully created directory:'' @ '' '' @ folder)
                 (w\<lparr>dirs := dirs w \<union> {documents_path, folder}\<rparr>))
         else (folder, w))"

definition welcome_message :: string where
  "welcome_message = colour ''95'' ''--- Welcome to the Fitness Tracker App! ---''"

text \<open>\<^verbatim>\<open>FitnessApp.__init__\<close>, with the home directory that \<^verbatim>\<open>expanduser("~")\<close> gives.\<close>

definition FitnessApp_init :: "string \<Rightarrow> world \<Rightarrow> (error + app) \<times> world" where
  "FitnessApp_init home w =
     (case ensure_folder_exists (get_documents_path home) w of
        (folder, w1) \<Rightarrow>
          (case input_user_info (print welcome_message w1) of
             (Inl e, w2) \<Rightarrow> (Inl e, w2)
           | (Inr info, w2) \<Rightarrow>
               (Inr \<lparr>folder_path = folder, user_info = info,
                     body_parts = the_body_parts, exercises = map_of the_exercises\<rparr>, w2)))"

text \<open>The script: construct the application, then run its main loop.\<close>

definition run :: "string \<Rightarrow> world \<Rightarrow> (error + unit) \<times> world" where
  "run home w =
     (case FitnessApp_init home w of
        (Inl e, w1) \<Rightarrow> (Inl e, w1)
      | (Inr self, w1) \<Rightarrow> main_loop self w1)"

section \<open>Properties\<close>

subsection \<open>Notions used to state them\<close>

text \<open>An entry as the collector builds it, with a positive weight, reps and sets.\<close>

fun positive_record :: "cell list \<Rightarrow> bool" where
  "positive_record [S ts, S part, S exercise, F weight, I reps, I sets] =
     (float_lt (Fin 0) weight \<and> reps > 0 \<and> sets > 0)"
| "positive_record _ = False"

text \<open>What the file holds once it is open for appending and the header question is
  settled: the header alone for a new file, the old rows otherwise.\<close>

definition opened_file :: "cell list list option \<Rightarrow> cell list list" where
  "opened_file f = (case f of None \<Rightarrow> [headers] | Some old \<Rightarrow> old)"

text \<open>A world for the examples: the given lines on standard input, nothing printed yet,
  no file and no directory, a clock that reads 1 May 2024, 10:00:00.\<close>

definition example_world :: "string list \<Rightarrow> world" where
  "example_world lines =
     \<lparr>stdin = lines, stdout = [],
      clock = (\<lambda>n. \<lparr>ymd = ''2024-05-01'', hms = ''10:00:00''\<rparr>), ticks = 0,
      system = ''Linux'', files = Map.empty, dirs = {}\<rparr>"

text \<open>The application object after a start with height 180 and weight 80.\<close>

definition example_app :: app where
  "example_app =
     \<lparr>folder_path = ''/home/u/Documents/Gym Progress'',
      user_info = \<lparr>height_cm = Fin 180, weight_kg = Fin 80,
                    BMI = Fin (6949999424954469 / 281474976710656),
                    BMI_Category = ''Normal weight''\<rparr>,
      body_parts = the_body_parts, exercises = map_of the_exercises\<rparr>"

text \<open>A row of a log file with a positive exercise weight, reps and sets.\<close>

fun positive_row :: "cell list \<Rightarrow> bool" where
  "positive_row [c, h, w, b, cat, part, exercise, F weight, I reps, I sets] =
     (float_lt (Fin 0) weight \<and> reps > 0 \<and> sets > 0)"
| "positive_row _ = False"

text \<open>The rows of the file at a path; none when there is no such file.\<close>

definition file_rows :: "(string \<rightharpoonup> cell list list) \<Rightarrow> string \<Rightarrow> cell list list" where
  "file_rows fs p = (case fs p of None \<Rightarrow> [] | Some rows \<Rightarrow> rows)"

text \<open>
  The three lines of an attempt at weight, reps and sets that is accepted, with the values
  read from them.
\<close>

definition valid_triple :: "string \<Rightarrow> string \<Rightarrow> string \<Rightarrow> (pyfloat \<times> int \<times> int) option" where
  "valid_triple a b c =
     (case (py_float a, py_int b, py_int c) of
        (Some x, Some r, Some s) \<Rightarrow>
          if float_lt (Fin 0) x \<and> 0 < r \<and> 0 < s then Some (x, r, s) else None
      | _ \<Rightarrow> None)"

text \<open>
  The lines of an attempt that fails: a weight that is no number; a weight and reps that are
  no number; a weight, reps and sets, where the sets are no number or one of the three
  values is not positive. And what such an attempt prints.
\<close>

fun failed_attempt :: "string list \<Rightarrow> bool" where
  "failed_attempt [a] = (py_float a = None)"
| "failed_attempt [a, b] = (py_float a \<noteq> None \<and> py_int b = None)"
| "failed_attempt [a, b, c] =
     (py_float a \<noteq> None \<and> py_int b \<noteq> None \<and> valid_triple a b c = None)"
| "failed_attempt ls = False"

fun attempt_output :: "string list \<Rightarrow> string list" where
  "attempt_output [a] = [weight_used_prompt, invalid_numbers]"
| "attempt_output [a, b] = [weight_used_prompt, reps_prompt, invalid_numbers]"
| "attempt_output [a, b, c] =
     [weight_used_prompt, reps_prompt, sets_prompt,
      if py_int c = None then invalid_numbers else positive_numbers]"
| "attempt_output ls = []"







subsection \<open>Auxiliary facts\<close>

lemma enter_set_details_positive:
  "enter_set_details w = (Inr (weight, reps, sets), w') \<Longrightarrow>
     float_lt (Fin 0) weight \<and> reps > 0 \<and> sets > 0"
proof (induction "length (stdin w)" arbitrary: w rule: less_induct)
  case less
  from less.prems show ?case
    apply (subst (asm) enter_set_details.simps)
    apply (auto simp: input_def split: list.splits option.splits if_splits
                dest!: less.hyps [rotated])
    done
qed

lemma enter_set_details_Inr:
  "enter_set_details w = (Inr (weight, reps, sets), w') \<Longrightarrow>
     float_lt (Fin 0) weight \<and> reps > 0 \<and> sets > 0
     \<and> length (stdin w') \<le> length (stdin w) \<and> files w' = files w"
  using enter_set_details_positive enter_set_details_frame by blast

lemma exercise_loop_positive:
  "exercise_loop self part d w = (Inr data, w') \<Longrightarrow> list_all positive_record d \<Longrightarrow>
     list_all positive_record data"
proof (induction "length (stdin w)" arbitrary: w d rule: less_induct)
  case less
  from less.prems show ?case
    apply (subst (asm) exercise_loop.simps)
    apply (auto simp: input_def Let_def
                split: list.splits option.splits if_splits prod.splits sum.splits
                dest!: less.hyps [rotated] enter_set_details_Inr prompt_yes_no_frame
                       stdin_datetime_now)
    done
qed


lemma parts_loop_positive:
  "parts_loop self ps d w = (Inr data, w') \<Longrightarrow> list_all positive_record d \<Longrightarrow>
     list_all positive_record data"
proof (induction ps arbitrary: d w)
  case Nil
  then show ?case by simp
next
  case (Cons p ps)
  from Cons.prems show ?case
    by (auto split: if_splits option.splits prod.splits sum.splits
             dest!: Cons.IH exercise_loop_positive)
qed

lemma collected_positive:
  "input_body_parts_and_exercises self w = (Inr data, w') \<Longrightarrow> list_all positive_record data"
  by (auto simp: input_body_parts_and_exercises_def
           split: prod.splits sum.splits dest!: parts_loop_positive)


lemma main_loop_files_inv:
  assumes step: "\<And>w0 data w1 r w2.
      input_body_parts_and_exercises self w0 = (Inr data, w1) \<Longrightarrow> Q (files w1) \<Longrightarrow>
      save_fitness_data self data w1 = (r, w2) \<Longrightarrow> Q (files w2)"
  shows "main_loop self w = (r, w') \<Longrightarrow> Q (files w) \<Longrightarrow> Q (files w')"
proof (induction "length (stdin w)" arbitrary: w rule: less_induct)
  case less
  obtain r1 w1 where c: "input_body_parts_and_exercises self w = (r1, w1)"
    by (cases "input_body_parts_and_exercises self w") auto
  have f1: "files w1 = files w"
    using input_body_parts_and_exercises_frame [OF c] by simp
  show ?case
  proof (cases r1)
    case (Inl e)
    with less.prems c f1 show ?thesis
      by (subst (asm) main_loop.simps) simp
  next
    case (Inr data)
    have l1: "length (stdin w1) < length (stdin w)"
      using input_body_parts_and_exercises_consumes c Inr by blast
    show ?thesis
    proof (cases "data = []")
      case True
      with less.prems(1) c Inr have "main_loop self (print went_wrong w1) = (r, w')"
        by (subst (asm) main_loop.simps) simp
      moreover have "length (stdin (print went_wrong w1)) < length (stdin w)"
        using l1 by simp
      moreover have "Q (files (print went_wrong w1))"
        using less.prems(2) f1 by simp
      ultimately show ?thesis
        using less.hyps by blast
    next
      case False
      obtain r2 w2 where s: "save_fitness_data self data w1 = (r2, w2)"
        by (cases "save_fitness_data self data w1") auto
      have q2: "Q (files w2)"
        using step [OF c [unfolded Inr] _ s] less.prems(2) f1 by simp
      have l2: "stdin w2 = stdin w1"
        using save_fitness_data_stdin [OF s] .
      show ?thesis
      proof (cases r2)
        case (Inl e)
        with less.prems(1) c \<open>r1 = Inr data\<close> False s q2 show ?thesis
          by (subst (asm) main_loop.simps) simp
      next
        case (Inr u)
        obtain r3 w3 where y: "prompt_yes_no another_set w2 = (r3, w3)"
          by (cases "prompt_yes_no another_set w2") auto
        have f3: "files w3 = files w2" and l3: "length (stdin w3) \<le> length (stdin w2)"
          using prompt_yes_no_frame [OF y] by simp_all
        from less.prems(1) c \<open>r1 = Inr data\<close> False s Inr y
        have "(case r3 of Inl e \<Rightarrow> (Inl e, w3)
               | Inr another \<Rightarrow> if \<not> another then (Inr (), w3) else main_loop self w3) = (r, w')"
          by (subst (asm) main_loop.simps) simp
        then show ?thesis
          using q2 f3 l3 l2 l1 less.hyps [of w3]
          by (auto split: sum.splits if_splits)
      qed
    qed
  qed
qed


lemma write_rows_result:
  "write_rows ui data rows0 = (r, rows) \<Longrightarrow>
     \<exists>new. rows = rows0 @ new \<and> (\<forall>row \<in> set new. \<exists>c cs. c # cs \<in> set data \<and> row = data_row ui c cs)"
proof (induction data arbitrary: rows0)
  case Nil
  then show ?case by simp
next
  case (Cons e data)
  show ?case
  proof (cases e)
    case Nil
    with Cons.prems show ?thesis by simp
  next
    case (Cons c cs)
    with Cons.prems have "write_rows ui data (rows0 @ [data_row ui c cs]) = (r, rows)"
      by simp
    from Cons.IH [OF this] obtain new where
      n: "rows = (rows0 @ [data_row ui c cs]) @ new"
         "\<forall>row \<in> set new. \<exists>c cs. c # cs \<in> set data \<and> row = data_row ui c cs"
      by blast
    have "rows = rows0 @ (data_row ui c cs # new)" using n(1) by simp
    moreover have "\<forall>row \<in> set (data_row ui c cs # new).
                     \<exists>c' cs'. c' # cs' \<in> set (e # data) \<and> row = data_row ui c' cs'"
      using n(2) Cons by (simp, blast)
    ultimately show ?thesis by blast
  qed
qed

lemma write_rows_complete:
  "[] \<notin> set data \<Longrightarrow>
     write_rows ui data rows0 = (Inr (), rows0 @ map (\<lambda>e. data_row ui (hd e) (tl e)) data)"
proof (induction data arbitrary: rows0)
  case Nil
  then show ?case by simp
next
  case (Cons e data)
  then show ?case by (cases e) auto
qed

lemma data_row_not_headers: "data_row ui c cs \<noteq> headers"
  by (simp add: data_row_def headers_def)

lemma save_fitness_data_unfold:
  "save_fitness_data self data w =
     (let p = today_path self (clock w (ticks w)) (system w);
          w1 = w\<lparr>ticks := Suc (ticks w)\<rparr>
      in case write_rows (user_info self) data (opened_file (files w p)) of
           (Inl e, rows) \<Rightarrow> (Inl e, w1\<lparr>files := (files w)(p \<mapsto> rows)\<rparr>)
         | (Inr u, rows) \<Rightarrow>
             (Inr (), print (saved_message p) (w1\<lparr>files := (files w)(p \<mapsto> rows)\<rparr>)))"
  by (cases "files w (today_path self (clock w (ticks w)) (system w))")
     (auto simp: save_fitness_data_def datetime_now_def Let_def opened_file_def
        split: prod.splits sum.splits)

lemma save_fitness_data_files:
  assumes "save_fitness_data self data w = (r, w')"
  shows "\<exists>new. files w' =
            (files w)(today_path self (clock w (ticks w)) (system w) \<mapsto>
               opened_file (files w (today_path self (clock w (ticks w)) (system w))) @ new)
          \<and> (\<forall>row \<in> set new. \<exists>c cs. c # cs \<in> set data \<and> row = data_row (user_info self) c cs)"
proof -
  let ?p = "today_path self (clock w (ticks w)) (system w)"
  obtain r1 rows where wr: "write_rows (user_info self) data (opened_file (files w ?p)) = (r1, rows)"
    by (cases "write_rows (user_info self) data (opened_file (files w ?p))") auto
  from write_rows_result [OF wr] obtain new where
    n: "rows = opened_file (files w ?p) @ new"
       "\<forall>row \<in> set new. \<exists>c cs. c # cs \<in> set data \<and> row = data_row (user_info self) c cs"
    by blast
  have "files w' = (files w)(?p \<mapsto> rows)"
    using assms wr
    by (cases r1) (auto simp: save_fitness_data_unfold Let_def)
  with n show ?thesis by blast
qed

lemma file_rows_upd:
  "file_rows (fs(q \<mapsto> opened_file (fs q) @ new)) p =
     (if p = q then opened_file (fs q) @ new else file_rows fs p)"
  by (simp add: file_rows_def)

lemma opened_file_rows:
  "set (opened_file (fs q)) \<subseteq> insert headers (set (file_rows fs q))"
  by (auto simp: opened_file_def file_rows_def split: option.splits)

lemma positive_data_row:
  "positive_record (c # cs) \<Longrightarrow> positive_row (data_row ui c cs)"
  by (cases "(c # cs)" rule: positive_record.cases) (auto simp: data_row_def)

lemma save_keeps_positive:
  assumes c: "input_body_parts_and_exercises self w0 = (Inr data, w1)"
      and q: "list_all (\<lambda>row. row = headers \<or> positive_row row) (file_rows (files w1) p)"
      and s: "save_fitness_data self data w1 = (r, w2)"
  shows "list_all (\<lambda>row. row = headers \<or> positive_row row) (file_rows (files w2) p)"
proof -
  let ?q = "today_path self (clock w1 (ticks w1)) (system w1)"
  from save_fitness_data_files [OF s] obtain new where
    f: "files w2 = (files w1)(?q \<mapsto> opened_file (files w1 ?q) @ new)"
    and n: "\<forall>row \<in> set new. \<exists>c cs. c # cs \<in> set data \<and> row = data_row (user_info self) c cs"
    by blast
  have d: "list_all positive_record data" using collected_positive [OF c] .
  have new_ok: "\<forall>row \<in> set new. positive_row row"
  proof
    fix row assume "row \<in> set new"
    with n obtain c cs where "c # cs \<in> set data" "row = data_row (user_info self) c cs"
      by blast
    with d show "positive_row row"
      by (auto simp: list_all_iff intro: positive_data_row)
  qed
  show ?thesis
  proof (cases "p = ?q")
    case True
    with q opened_file_rows [of "files w1" ?q] new_ok show ?thesis
      by (auto simp: f file_rows_upd list_all_iff)
  next
    case False
    with q show ?thesis by (simp add: f file_rows_upd)
  qed
qed


lemma failed_attempt_step:
  "failed_attempt ls \<Longrightarrow>
     enter_set_details (w\<lparr>stdin := ls @ rest\<rparr>) =
     enter_set_details (w\<lparr>stdin := rest, stdout := stdout w @ attempt_output ls\<rparr>)"
  apply (cases ls rule: failed_attempt.cases)
     apply (subst enter_set_details.simps,
            auto simp: input_def print_def valid_triple_def split: option.splits if_splits)+
  done

lemma valid_triple_step:
  "valid_triple a b c = Some (x, r, s) \<Longrightarrow>
     enter_set_details (w\<lparr>stdin := a # b # c # rest\<rparr>) =
     (Inr (x, r, s),
      w\<lparr>stdin := rest,
        stdout := stdout w @ [weight_used_prompt, reps_prompt, sets_prompt]\<rparr>)"
  by (subst enter_set_details.simps)
     (auto simp: input_def print_def valid_triple_def split: option.splits if_splits)




subsection \<open>Evaluating the built-ins on the inputs of the examples\<close>

lemma py_int_examples:
  "py_int ''1'' = Some 1" "py_int ''2'' = Some 2" "py_int ''3'' = Some 3"
  "py_int ''5'' = Some 5" "py_int ''10'' = Some 10" "py_int ''99'' = Some 99"
  "py_int ''0'' = Some 0" "py_int ''x'' = None" "py_int ''a'' = None"
  by code_simp+

lemmas round_double_eval =
  round_double_def binary_exponent_def pow2_def round_half_even_def Let_def

lemma round_double_examples:
  "round_double 60 = Fin 60" "round_double 70 = Fin 70" "round_double 80 = Fin 80"
  "round_double 180 = Fin 180" "round_double 0 = Fin 0"
  by (simp_all add: round_double_eval)

lemma parse_examples:
  "split_sign (strip ''60'') = (False, ''60'')" "lower ''60'' = ''60''"
  "decimal_value ''60'' = Some 60"
  "split_sign (strip ''70'') = (False, ''70'')" "lower ''70'' = ''70''"
  "decimal_value ''70'' = Some 70"
  "split_sign (strip ''80'') = (False, ''80'')" "lower ''80'' = ''80''"
  "decimal_value ''80'' = Some 80"
  "split_sign (strip ''180'') = (False, ''180'')" "lower ''180'' = ''180''"
  "decimal_value ''180'' = Some 180"
  "split_sign (strip ''0'') = (False, ''0'')" "lower ''0'' = ''0''"
  "decimal_value ''0'' = Some 0"
  "split_sign (strip ''abc'') = (False, ''abc'')" "lower ''abc'' = ''abc''"
  "decimal_value ''abc'' = None"
  "split_sign (strip ''nan'') = (False, ''nan'')" "lower ''nan'' = ''nan''"
  "split_sign (strip ''inf'') = (False, ''inf'')" "lower ''inf'' = ''inf''"
  by code_simp+

lemma py_float_examples:
  "py_float ''60'' = Some (Fin 60)" "py_float ''70'' = Some (Fin 70)"
  "py_float ''80'' = Some (Fin 80)" "py_float ''180'' = Some (Fin 180)"
  "py_float ''abc'' = None" "py_float ''0'' = Some (Fin 0)"
  "py_float ''nan'' = Some NaN" "py_float ''inf'' = Some PInf"
  by (simp_all add: py_float_def parse_examples round_double_examples)

lemma isdigit_examples:
  "isdigit ''1''" "isdigit ''2''" "isdigit ''3''" "isdigit ''5''" "isdigit ''99''" "isdigit ''0''"
  "\<not> isdigit ''x''"
  by code_simp+

lemma lower_examples: "lower ''n'' = ''n''" "lower ''y'' = ''y''"
  by code_simp+

lemma selected_parts_examples:
  "selected_parts ''1'' = Inr [''1'']"
  "selected_parts ''0,2,99'' = Inr [''0'', ''2'', ''99'']"
  "selected_parts ''3,1,1,5'' = Inr [''1'', ''3'', ''5'']"
  "selected_parts ''a,2'' = Inl ValueError"
  "selected_parts ''1,2'' = Inr [''1'', ''2'']"
  "selected_parts [] = Inl ValueError"
  by code_simp+

lemmas run_simps =
  input_body_parts_and_exercises_def example_world_def example_app_def input_def
  exercise_loop.simps enter_set_details.simps prompt_yes_no.simps main_loop.simps
  datetime_now_def strftime_full_def the_body_parts_def the_exercises_def Let_def
  py_int_examples py_float_examples isdigit_examples lower_examples selected_parts_examples

lemma one_chest_record:
  "fst (input_body_parts_and_exercises example_app
          (example_world [''1'', ''1'', ''60'', ''10'', ''3'', ''n'', ''n''])) =
     Inr [[S ''2024-05-01 10:00:00'', S ''Chest'', S ''Incline Smith Press'', F (Fin 60), I 10, I 3]]"
  by (simp add: run_simps)


lemmas start_simps =
  run_def FitnessApp_init_def ensure_folder_exists_def get_documents_path_def path_join_def
  input_user_info.simps calculate_bmi_def float_le_def save_fitness_data_def today_path_def
  round_double_def binary_exponent_def pow2_def round_half_even_def

lemma fmt_2f_example: "fmt_2f (Fin (6949999424954469 / 281474976710656)) = ''24.69''"
  by code_simp

subsection \<open>The selection and the order of the parts\<close>



lemma selected_parts_raises:
  "\<not> list_all (\<lambda>t. py_int t \<noteq> None) (split_comma line) \<Longrightarrow> selected_parts line = Inl ValueError"
  by (auto simp: selected_parts_def Let_def list_all_iff)









section \<open>The claims\<close>

text \<open>
  C1. With weight 99.75 kg and height 200 cm every operation of \<^verbatim>\<open>calculate_bmi\<close> is exact:
  the body-mass index is 24.9375, which is not above 29.9, and the category returned is the
  last one (obesity). The values strictly between 24.9 and 25 fall through both closed ranges
  to the else branch.
\<close>

theorem calculate_bmi_gap:
  "calculate_bmi (Fin 99.75) (Fin 200) = Inr (Fin 24.9375, ''Obesity'')
   \<and> \<not> float_lt (round_double 29.9) (Fin 24.9375)"
  by (simp add: calculate_bmi_def float_le_def round_double_eval)

text \<open>
  C9. Every entry that \<^verbatim>\<open>input_body_parts_and_exercises\<close> returns has the six cells of a
  record with weight, reps and sets all positive; and \<^verbatim>\<open>main_loop\<close> keeps every log file
  free of rows that are neither the header nor rows with positive weight, reps and sets.
\<close>


theorem collected_and_saved_records_positive:
  "(input_body_parts_and_exercises self w = (Inr data, w') \<longrightarrow> list_all positive_record data)
   \<and> (main_loop self w = (r, w'') \<longrightarrow>
        list_all (\<lambda>row. row = headers \<or> positive_row row) (file_rows (files w) p) \<longrightarrow>
        list_all (\<lambda>row. row = headers \<or> positive_row row) (file_rows (files w'') p))"
proof (intro conjI impI)
  assume "input_body_parts_and_exercises self w = (Inr data, w')"
  then show "list_all positive_record data" by (rule collected_positive)
next
  assume m: "main_loop self w = (r, w'')"
     and q: "list_all (\<lambda>row. row = headers \<or> positive_row row) (file_rows (files w) p)"
  show "list_all (\<lambda>row. row = headers \<or> positive_row row) (file_rows (files w'') p)"
    by (rule main_loop_files_inv
          [where Q = "\<lambda>fs. list_all (\<lambda>row. row = headers \<or> positive_row row) (file_rows fs p)",
           OF save_keeps_positive m q])
qed


theorem collected_and_saved_records_positive_witness:
  "input_body_parts_and_exercises example_app
       (example_world [''1'', ''1'', ''60'', ''10'', ''3'', ''n'', ''n'']) =
     (Inr [[S ''2024-05-01 10:00:00'', S ''Chest'', S ''Incline Smith Press'', F (Fin 60), I 10, I 3]],
      snd (input_body_parts_and_exercises example_app
             (example_world [''1'', ''1'', ''60'', ''10'', ''3'', ''n'', ''n''])))
   \<and> list_all positive_record
       [[S ''2024-05-01 10:00:00'', S ''Chest'', S ''Incline Smith Press'', F (Fin 60), I 10, I 3]]
   \<and> file_rows (files (example_world [''1'', ''1'', ''60'', ''10'', ''3'', ''n'', ''n'']))
       ''/home/u/Documents/Gym Progress/2024-05-01.csv'' = []
   \<and> list_all (\<lambda>row. row = headers \<or> positive_row row)
       (file_rows
          (files (snd (main_loop example_app
                         (example_world [''1'', ''1'', ''60'', ''10'', ''3'', ''n'', ''n'']))))
          ''/home/u/Documents/Gym Progress/2024-05-01.csv'')"
proof -
  let ?w = "example_world [''1'', ''1'', ''60'', ''10'', ''3'', ''n'', ''n'']"
  let ?d = "[[S ''2024-05-01 10:00:00'', S ''Chest'', S ''Incline Smith Press'', F (Fin 60), I 10, I 3]]"
  have c: "input_body_parts_and_exercises example_app ?w =
             (Inr ?d, snd (input_body_parts_and_exercises example_app ?w))"
    using one_chest_record by (simp add: prod_eq_iff)
  have m: "main_loop example_app ?w =
             (fst (main_loop example_app ?w), snd (main_loop example_app ?w))"
    by simp
  have e: "file_rows (files ?w) ''/home/u/Documents/Gym Progress/2024-05-01.csv'' = []"
    by (simp add: file_rows_def example_world_def)
  from collected_and_saved_records_positive
         [of example_app ?w ?d "snd (input_body_parts_and_exercises example_app ?w)"
             "fst (main_loop example_app ?w)" "snd (main_loop example_app ?w)"
             "''/home/u/Documents/Gym Progress/2024-05-01.csv''"]
       c m e
  show ?thesis by simp
qed

text \<open>
  C10. Weight, reps and sets are validated as one triple. Let the lines typed be any number
  of failed attempts (a weight that is no number; a weight, then reps that are no number; a
  weight and reps, then sets that are no number; three numbers of which one is not positive)
  followed by three lines that are accepted. Then \<open>enter_set_details\<close> returns exactly the
  values of those last three lines; every failed attempt has printed the prompts it got to
  and its message, and the next attempt has started again from the weight prompt; no value
  of a failed attempt, such as a valid weight typed before malformed reps, is kept.
\<close>

theorem set_details_all_or_nothing:
  "list_all failed_attempt attempts \<Longrightarrow> valid_triple a b c = Some (x, r, s) \<Longrightarrow>
     enter_set_details (w\<lparr>stdin := concat attempts @ a # b # c # rest\<rparr>) =
     (Inr (x, r, s),
      w\<lparr>stdin := rest,
        stdout := stdout w @ concat (map attempt_output attempts)
                  @ [weight_used_prompt, reps_prompt, sets_prompt]\<rparr>)"
proof (induction attempts arbitrary: w)
  case Nil
  then show ?case by (simp add: valid_triple_step)
next
  case (Cons ls attempts)
  from Cons.prems have f: "failed_attempt ls" and fs: "list_all failed_attempt attempts"
    by simp_all
  have "enter_set_details (w\<lparr>stdin := concat (ls # attempts) @ a # b # c # rest\<rparr>) =
        enter_set_details
          (w\<lparr>stdin := concat attempts @ a # b # c # rest,
             stdout := stdout w @ attempt_output ls\<rparr>)"
    using failed_attempt_step [OF f, where w = w and rest = "concat attempts @ a # b # c # rest"]
    by simp
  also have "\<dots> =
        enter_set_details
          ((w\<lparr>stdout := stdout w @ attempt_output ls\<rparr>)
             \<lparr>stdin := concat attempts @ a # b # c # rest\<rparr>)"
    by (cases w) simp
  also have "\<dots> = (Inr (x, r, s),
      (w\<lparr>stdout := stdout w @ attempt_output ls\<rparr>)
        \<lparr>stdin := rest,
          stdout := stdout (w\<lparr>stdout := stdout w @ attempt_output ls\<rparr>)
                    @ concat (map attempt_output attempts)
                    @ [weight_used_prompt, reps_prompt, sets_prompt]\<rparr>)"
    by (rule Cons.IH [OF fs Cons.prems(2)])
  finally show ?case by (cases w) simp
qed

theorem set_details_all_or_nothing_witness:
  "list_all failed_attempt
     [[''abc''], [''60'', ''x''], [''60'', ''10'', ''x''], [''60'', ''10'', ''0''],
      [''nan'', ''10'', ''3'']]
   \<and> valid_triple ''70'' ''10'' ''3'' = Some (Fin 70, 10, 3)
   \<and> enter_set_details
       (example_world
          [''abc'', ''60'', ''x'', ''60'', ''10'', ''x'', ''60'', ''10'', ''0'',
           ''nan'', ''10'', ''3'', ''70'', ''10'', ''3'', ''n'']) =
     (Inr (Fin 70, 10, 3),
      (example_world [''n''])
        \<lparr>stdout :=
           [weight_used_prompt, invalid_numbers,
            weight_used_prompt, reps_prompt, invalid_numbers,
            weight_used_prompt, reps_prompt, sets_prompt, invalid_numbers,
            weight_used_prompt, reps_prompt, sets_prompt, positive_numbers,
            weight_used_prompt, reps_prompt, sets_prompt, positive_numbers,
            weight_used_prompt, reps_prompt, sets_prompt]\<rparr>)"
  using set_details_all_or_nothing
          [where attempts = "[[''abc''], [''60'', ''x''], [''60'', ''10'', ''x''],
                              [''60'', ''10'', ''0''], [''nan'', ''10'', ''3'']]"
             and a = "''70''" and b = "''10''" and c = "''3''"
             and x = "Fin 70" and r = 10 and s = 3
             and w = "example_world []" and rest = "[''n'']"]
  by (simp add: valid_triple_def py_int_examples py_float_examples example_world_def)




text \<open>
  C2. The line \<^verbatim>\<open>a,2\<close> is typed at the body-part prompt. The token \<^verbatim>\<open>a\<close> is not reported
  as invalid and the body part 2 is not processed: \<^verbatim>\<open>sorted(..., key=int)\<close> raises
  \<^verbatim>\<open>ValueError\<close> before the loop that validates the tokens is reached, nothing catches it,
  and \<^verbatim>\<open>main_loop\<close> ends with that exception, the prompt being the last thing printed and
  the other lines left unread. The empty line does the same.
\<close>

theorem non_numeric_token_raises:
  "fst (input_body_parts_and_exercises example_app
          (example_world [''a,2'', ''1'', ''60'', ''10'', ''3'', ''n'', ''n''])) = Inl ValueError
   \<and> fst (main_loop example_app
            (example_world [''a,2'', ''1'', ''60'', ''10'', ''3'', ''n'', ''n''])) = Inl ValueError
   \<and> stdin (snd (main_loop example_app
                   (example_world [''a,2'', ''1'', ''60'', ''10'', ''3'', ''n'', ''n'']))) =
       [''1'', ''60'', ''10'', ''3'', ''n'', ''n'']
   \<and> last (stdout (snd (main_loop example_app
                   (example_world [''a,2'', ''1'', ''60'', ''10'', ''3'', ''n'', ''n''])))) =
       body_parts_prompt
   \<and> fst (main_loop example_app (example_world [[]])) = Inl ValueError"
  by (simp add: run_simps print_menu_eq)

text \<open>
  C8. The program is started in a home directory without a log folder and the lines 180, 80,
  1, 1, 60, 10, 3, n, n are typed. The body-mass index computed is the float
  24.691358024691358 (the quotient of 6949999424954469 by \<open>2 ^ 48\<close>), in the category normal
  weight; the message printed shows it with two decimals, 24.69; the program returns, and the
  log file of the day holds the header and one row, whose fourth cell is the index as
  computed, not rounded to two decimals.
\<close>

theorem end_to_end_run:
  "calculate_bmi (Fin 80) (Fin 180) =
     Inr (Fin (6949999424954469 / 281474976710656), ''Normal weight'')
   \<and> fmt_2f (Fin (6949999424954469 / 281474976710656)) = ''24.69''
   \<and> fst (run ''/home/u''
          (example_world [''180'', ''80'', ''1'', ''1'', ''60'', ''10'', ''3'', ''n'', ''n''])) = Inr ()
   \<and> bmi_message (Fin (6949999424954469 / 281474976710656)) ''Normal weight''
       \<in> set (stdout (snd (run ''/home/u''
          (example_world [''180'', ''80'', ''1'', ''1'', ''60'', ''10'', ''3'', ''n'', ''n'']))))
   \<and> files (snd (run ''/home/u''
          (example_world [''180'', ''80'', ''1'', ''1'', ''60'', ''10'', ''3'', ''n'', ''n''])))
        ''/home/u/Documents/Gym Progress/2024-05-01.csv'' =
      Some [headers,
            [S ''2024-05-01 10:00:00'', F (Fin 180), F (Fin 80),
             F (Fin (6949999424954469 / 281474976710656)), S ''Normal weight'',
             S ''Chest'', S ''Incline Smith Press'', F (Fin 60), I 10, I 3]]"
  by (simp add: run_simps start_simps data_row_def fmt_2f_example print_menu_eq)

text \<open>
  C8, the row as the specification gives it. The row with 24.69 (the float nearest to it) in
  the fourth cell is not what the log file holds after this run.
\<close>

theorem logged_bmi_is_not_rounded:
  "files (snd (run ''/home/u''
          (example_world [''180'', ''80'', ''1'', ''1'', ''60'', ''10'', ''3'', ''n'', ''n''])))
        ''/home/u/Documents/Gym Progress/2024-05-01.csv'' \<noteq>
      Some [headers,
            [S ''2024-05-01 10:00:00'', F (Fin 180), F (Fin 80),
             F (round_double 24.69), S ''Normal weight'',
             S ''Chest'', S ''Incline Smith Press'', F (Fin 60), I 10, I 3]]"
  by (simp add: run_simps start_simps data_row_def)



end
